theory Spec2Isabelle
  imports Main
begin

section \<open>The Google Base service binding (gdata/base/service.py)\<close>

text \<open>
  A shallow embedding of \<^verbatim>\<open>src/gdata/base/service.py\<close>: the class
  \<^verbatim>\<open>GBaseService\<close>, a thin binding over the inherited
  \<^verbatim>\<open>gdata.service.GDataService\<close>, and the class \<^verbatim>\<open>BaseQuery\<close>.
  A Python call that may raise returns a sum: \<open>Inl e\<close> is the exception \<open>e\<close>
  leaving the call, \<open>Inr v\<close> is the value \<open>v\<close> returned.
\<close>

subsection \<open>Exceptions and values\<close>

text \<open>
  The module declares \<^verbatim>\<open>class Error(Exception)\<close> and
  \<^verbatim>\<open>class RequestError(Error)\<close>. \<open>KeyError\<close> and \<open>TypeError\<close> are the
  builtin exceptions of a failed item access and of a membership test on a value that is
  no container. \<open>Raised n\<close> stands for any other exception, named \<open>n\<close>, that a
  layer below (transport, authentication, XML parsing, a converter) lets escape.
\<close>

datatype exn = Error | RequestError | KeyError | TypeError | Raised string

text \<open>A Python value that may be \<^verbatim>\<open>None\<close>.\<close>

datatype 'a pyval = PyNone | PyVal 'a

subsection \<open>The service handle and its API key\<close>

text \<open>
  \<^verbatim>\<open>additional_headers\<close> is documented as an optional dict: it is either
  \<^verbatim>\<open>None\<close> (the default of the constructor) or a dict from header names to
  values.
\<close>

datatype 'a headers = HNone | HDict "string \<rightharpoonup> 'a pyval"

record 'a GBaseService =
  email :: "string pyval"
  password :: "string pyval"
  service :: "string pyval"
  source :: "string pyval"
  server :: "string pyval"
  additional_headers :: "'a headers"

text \<open>\<^verbatim>\<open>isinstance(self.additional_headers, dict)\<close>\<close>

fun isinstance_dict :: "'a headers \<Rightarrow> bool" where
  "isinstance_dict HNone = False"
| "isinstance_dict (HDict m) = True"

text \<open>
  \<^verbatim>\<open>self.additional_headers['X-Google-Key'] = api_key\<close>, run once
  \<^verbatim>\<open>additional_headers\<close> is known to be a dict; item assignment on
  \<^verbatim>\<open>None\<close> would raise, which \<open>GBaseService_SetAPIKey\<close> below rules out
  by replacing a non-dict first.
\<close>

fun setitem_headers :: "'a headers \<Rightarrow> string \<Rightarrow> 'a pyval \<Rightarrow> 'a headers" where
  "setitem_headers (HDict m) k v = HDict (m(k \<mapsto> v))"
| "setitem_headers HNone k v = HNone"

text \<open>
  \<^verbatim>\<open>
  def _SetAPIKey(self, api_key):
    if not isinstance(self.additional_headers, dict):
      self.additional_headers = {}
    self.additional_headers['X-Google-Key'] = api_key
  \<close>
\<close>

definition GBaseService_SetAPIKey :: "'a GBaseService \<Rightarrow> 'a pyval \<Rightarrow> 'a GBaseService" where
  "GBaseService_SetAPIKey self api_key =
     (let self1 = (if \<not> isinstance_dict (additional_headers self)
                   then self\<lparr>additional_headers := HDict Map.empty\<rparr>
                   else self)
      in self1\<lparr>additional_headers :=
                  setitem_headers (additional_headers self1) ''X-Google-Key'' api_key\<rparr>)"

text \<open>\<^verbatim>\<open>def __SetAPIKey(self, api_key): self._SetAPIKey(api_key)\<close>\<close>

definition GBaseService__SetAPIKey :: "'a GBaseService \<Rightarrow> 'a pyval \<Rightarrow> 'a GBaseService" where
  "GBaseService__SetAPIKey self api_key = GBaseService_SetAPIKey self api_key"

text \<open>
  \<^verbatim>\<open>
  def _GetAPIKey(self):
    if 'X-Google-Key' not in self.additional_headers:
      return None
    else:
      return self.additional_headers['X-Google-Key']
  \<close>
  The membership test on \<^verbatim>\<open>None\<close> raises \<^verbatim>\<open>TypeError\<close>.
\<close>

definition GBaseService_GetAPIKey :: "'a GBaseService \<Rightarrow> exn + 'a pyval" where
  "GBaseService_GetAPIKey self =
     (case additional_headers self of
        HNone \<Rightarrow> Inl TypeError
      | HDict m \<Rightarrow>
          (if ''X-Google-Key'' \<notin> dom m then Inr PyNone
           else (case m ''X-Google-Key'' of None \<Rightarrow> Inl KeyError | Some v \<Rightarrow> Inr v)))"

text \<open>\<^verbatim>\<open>def __GetAPIKey(self): return self._GetAPIKey()\<close>\<close>

definition GBaseService__GetAPIKey :: "'a GBaseService \<Rightarrow> exn + 'a pyval" where
  "GBaseService__GetAPIKey self = GBaseService_GetAPIKey self"

text \<open>
  \<^verbatim>\<open>api_key = property(__GetAPIKey, __SetAPIKey, ...)\<close>: reading the attribute
  runs the getter, assigning to it runs the setter.
\<close>

definition get_api_key :: "'a GBaseService \<Rightarrow> exn + 'a pyval" where
  "get_api_key self = GBaseService__GetAPIKey self"

definition set_api_key :: "'a GBaseService \<Rightarrow> 'a pyval \<Rightarrow> 'a GBaseService" where
  "set_api_key self v = GBaseService__SetAPIKey self v"

text \<open>
  Modelled from the spec: \<^verbatim>\<open>gdata.service.GDataService.__init__\<close> is not under
  src/. The spec's service handle "holds credentials, target host, and a mapping of
  additional request headers", so the inherited constructor is taken to store its
  arguments in the handle.
\<close>

definition GDataService_init ::
  "string pyval \<Rightarrow> string pyval \<Rightarrow> string pyval \<Rightarrow> string pyval \<Rightarrow> string pyval \<Rightarrow>
   'a headers \<Rightarrow> 'a GBaseService" where
  "GDataService_init email0 password0 service0 source0 server0 additional_headers0 =
     \<lparr>email = email0, password = password0, service = service0, source = source0,
      server = server0, additional_headers = additional_headers0\<rparr>"

text \<open>
  \<^verbatim>\<open>
  def __init__(self, email=None, password=None, source=None,
               server='base.google.com', api_key=None, additional_headers=None):
    gdata.service.GDataService.__init__(self, email=email, password=password,
        service='gbase', source=source, server=server,
        additional_headers=additional_headers)
    self.api_key = api_key
  \<close>
\<close>

definition GBaseService_init ::
  "string pyval \<Rightarrow> string pyval \<Rightarrow> string pyval \<Rightarrow> string pyval \<Rightarrow> 'a pyval \<Rightarrow>
   'a headers \<Rightarrow> 'a GBaseService" where
  "GBaseService_init email0 password0 source0 server0 api_key additional_headers0 =
     set_api_key
       (GDataService_init email0 password0 (PyVal ''gbase'') source0 server0
          additional_headers0)
       api_key"

text \<open>The constructor called with every argument left at its default.\<close>

definition GBaseService_default :: "'a GBaseService" where
  "GBaseService_default =
     GBaseService_init PyNone PyNone PyNone (PyVal ''base.google.com'') PyNone HNone"

subsection \<open>The query-parameter object\<close>

text \<open>
  Modelled from the spec: the base class \<^verbatim>\<open>gdata.service.Query\<close> is not under
  src/. The spec describes it as "a mapping from string keys to string values" that
  "behaves as a plain key/value container", so a \<^verbatim>\<open>BaseQuery\<close> is a Python
  dict: item access on a missing key raises \<^verbatim>\<open>KeyError\<close>, item assignment
  stores under the key.
\<close>

type_synonym 'a BaseQuery = "string \<rightharpoonup> 'a"

definition getitem :: "'a BaseQuery \<Rightarrow> string \<Rightarrow> exn + 'a" where
  "getitem self k = (case self k of None \<Rightarrow> Inl KeyError | Some v \<Rightarrow> Inr v)"

definition setitem :: "'a BaseQuery \<Rightarrow> string \<Rightarrow> 'a \<Rightarrow> 'a BaseQuery" where
  "setitem self k v = self(k \<mapsto> v)"

text \<open>\<^verbatim>\<open>def _GetBaseQuery(self): return self['bq']\<close>\<close>

definition BaseQuery_GetBaseQuery :: "'a BaseQuery \<Rightarrow> exn + 'a" where
  "BaseQuery_GetBaseQuery self = getitem self ''bq''"

text \<open>\<^verbatim>\<open>def _SetBaseQuery(self, base_query): self['bq'] = base_query\<close>\<close>

definition BaseQuery_SetBaseQuery :: "'a BaseQuery \<Rightarrow> 'a \<Rightarrow> 'a BaseQuery" where
  "BaseQuery_SetBaseQuery self base_query = setitem self ''bq'' base_query"

text \<open>\<^verbatim>\<open>bq = property(_GetBaseQuery, _SetBaseQuery, ...)\<close>\<close>

definition get_bq :: "'a BaseQuery \<Rightarrow> exn + 'a" where
  "get_bq self = BaseQuery_GetBaseQuery self"

definition set_bq :: "'a BaseQuery \<Rightarrow> 'a \<Rightarrow> 'a BaseQuery" where
  "set_bq self v = BaseQuery_SetBaseQuery self v"

subsection \<open>What the binding inherits and imports\<close>

text \<open>
  A converter is a function run on the server's response, a string; the optional
  \<^verbatim>\<open>converter\<close> argument is \<^verbatim>\<open>None\<close> or such a function. The optional
  \<^verbatim>\<open>url_params\<close> argument is \<^verbatim>\<open>None\<close> or a dict.
\<close>

type_synonym 'v converter = "string \<Rightarrow> exn + 'v"

type_synonym url_params = "(string \<rightharpoonup> string) pyval"

text \<open>
  \<^verbatim>\<open>if converter:\<close> tests the truth value of the argument: \<^verbatim>\<open>None\<close> is
  false, a function object is true.
\<close>

fun truthy :: "'v converter pyval \<Rightarrow> bool" where
  "truthy PyNone = False"
| "truthy (PyVal c) = True"

text \<open>
  The methods \<^verbatim>\<open>Get\<close>, \<^verbatim>\<open>Post\<close>, \<^verbatim>\<open>Put\<close> and \<^verbatim>\<open>Delete\<close> are
  inherited from \<^verbatim>\<open>gdata.service.GDataService\<close>; \<^verbatim>\<open>atom.Entry\<close>, its
  method \<^verbatim>\<open>ToString\<close> and the parsers of \<^verbatim>\<open>gdata.base\<close> are imported.
  None of them is under src/, so the binding is modelled over an arbitrary
  implementation of them, passed as a record. \<open>'v\<close> is the type of the Python objects
  that are sent and returned. The arguments follow the calls of the source:
  \<^verbatim>\<open>self.Get(uri, converter=...)\<close>,
  \<^verbatim>\<open>self.Post(data, uri, url_params=..., escape_params=..., converter=...)\<close>,
  \<^verbatim>\<open>self.Put(data, uri, url_params=..., escape_params=..., converter=...)\<close>,
  \<^verbatim>\<open>self.Delete(uri, url_params=..., escape_params=...)\<close>.
\<close>

record ('a, 'v) gdata =
  Get :: "'a GBaseService \<Rightarrow> string \<Rightarrow> 'v converter pyval \<Rightarrow> exn + 'v"
  Post :: "'a GBaseService \<Rightarrow> 'v \<Rightarrow> string \<Rightarrow> url_params \<Rightarrow> bool \<Rightarrow> 'v converter pyval
           \<Rightarrow> exn + 'v"
  Put :: "'a GBaseService \<Rightarrow> 'v \<Rightarrow> string \<Rightarrow> url_params \<Rightarrow> bool \<Rightarrow> 'v converter pyval
           \<Rightarrow> exn + 'v"
  Delete :: "'a GBaseService \<Rightarrow> string \<Rightarrow> url_params \<Rightarrow> bool \<Rightarrow> exn + bool"
  isinstance_Entry :: "'v \<Rightarrow> bool"
  ToString :: "'v \<Rightarrow> exn + string"
  GBaseItemFromString :: "'v converter"
  GBaseSnippetFromString :: "'v converter"
  GBaseSnippetFeedFromString :: "'v converter"
  GBaseItemFeedFromString :: "'v converter"
  GBaseAttributesFeedFromString :: "'v converter"
  GBaseItemTypesFeedFromString :: "'v converter"
  GBaseLocalesFeedFromString :: "'v converter"
  GBaseAttributeEntryFromString :: "'v converter"
  GBaseItemTypeEntryFromString :: "'v converter"
  GDataEntryFromString :: "'v converter"

subsection \<open>The operations of GBaseService\<close>

text \<open>\<^verbatim>\<open>gdata.base.GBaseItemFromString(result.ToString())\<close>\<close>

definition reparse :: "('a, 'v) gdata \<Rightarrow> 'v \<Rightarrow> exn + 'v" where
  "reparse lib result =
     (case ToString lib result of
        Inl e \<Rightarrow> Inl e
      | Inr s \<Rightarrow> GBaseItemFromString lib s)"

text \<open>
  \<^verbatim>\<open>
  def Query(self, uri, converter=None):
    result = self.Get(uri, converter=converter)
    if converter:
      return result
    elif isinstance(result, atom.Entry):
      return gdata.base.GBaseItemFromString(result.ToString())
    return result
  \<close>
\<close>

definition Query ::
  "('a, 'v) gdata \<Rightarrow> 'a GBaseService \<Rightarrow> string \<Rightarrow> 'v converter pyval \<Rightarrow> exn + 'v" where
  "Query lib self uri converter =
     (case Get lib self uri converter of
        Inl e \<Rightarrow> Inl e
      | Inr result \<Rightarrow>
          (if truthy converter then Inr result
           else if isinstance_Entry lib result then reparse lib result
           else Inr result))"

text \<open>
  \<^verbatim>\<open>def QuerySnippetsFeed(self, uri):
    return self.Get(uri, converter=gdata.base.GBaseSnippetFeedFromString)\<close>
  and the nine methods after it, each with its own converter.
\<close>

definition QuerySnippetsFeed :: "('a, 'v) gdata \<Rightarrow> 'a GBaseService \<Rightarrow> string \<Rightarrow> exn + 'v" where
  "QuerySnippetsFeed lib self uri = Get lib self uri (PyVal (GBaseSnippetFeedFromString lib))"

definition QueryItemsFeed :: "('a, 'v) gdata \<Rightarrow> 'a GBaseService \<Rightarrow> string \<Rightarrow> exn + 'v" where
  "QueryItemsFeed lib self uri = Get lib self uri (PyVal (GBaseItemFeedFromString lib))"

definition QueryAttributesFeed :: "('a, 'v) gdata \<Rightarrow> 'a GBaseService \<Rightarrow> string \<Rightarrow> exn + 'v" where
  "QueryAttributesFeed lib self uri =
     Get lib self uri (PyVal (GBaseAttributesFeedFromString lib))"

definition QueryItemTypesFeed :: "('a, 'v) gdata \<Rightarrow> 'a GBaseService \<Rightarrow> string \<Rightarrow> exn + 'v" where
  "QueryItemTypesFeed lib self uri =
     Get lib self uri (PyVal (GBaseItemTypesFeedFromString lib))"

definition QueryLocalesFeed :: "('a, 'v) gdata \<Rightarrow> 'a GBaseService \<Rightarrow> string \<Rightarrow> exn + 'v" where
  "QueryLocalesFeed lib self uri = Get lib self uri (PyVal (GBaseLocalesFeedFromString lib))"

definition GetItem :: "('a, 'v) gdata \<Rightarrow> 'a GBaseService \<Rightarrow> string \<Rightarrow> exn + 'v" where
  "GetItem lib self uri = Get lib self uri (PyVal (GBaseItemFromString lib))"

definition GetSnippet :: "('a, 'v) gdata \<Rightarrow> 'a GBaseService \<Rightarrow> string \<Rightarrow> exn + 'v" where
  "GetSnippet lib self uri = Get lib self uri (PyVal (GBaseSnippetFromString lib))"

definition GetAttribute :: "('a, 'v) gdata \<Rightarrow> 'a GBaseService \<Rightarrow> string \<Rightarrow> exn + 'v" where
  "GetAttribute lib self uri = Get lib self uri (PyVal (GBaseAttributeEntryFromString lib))"

definition GetItemType :: "('a, 'v) gdata \<Rightarrow> 'a GBaseService \<Rightarrow> string \<Rightarrow> exn + 'v" where
  "GetItemType lib self uri = Get lib self uri (PyVal (GBaseItemTypeEntryFromString lib))"

definition GetLocale :: "('a, 'v) gdata \<Rightarrow> 'a GBaseService \<Rightarrow> string \<Rightarrow> exn + 'v" where
  "GetLocale lib self uri = Get lib self uri (PyVal (GDataEntryFromString lib))"

text \<open>
  \<^verbatim>\<open>
  def InsertItem(self, new_item, url_params=None, escape_params=True, converter=None):
    response = self.Post(new_item, '/base/feeds/items', url_params=url_params,
                         escape_params=escape_params, converter=converter)
    if not converter and isinstance(response, atom.Entry):
      return gdata.base.GBaseItemFromString(response.ToString())
    return response
  \<close>
\<close>

definition InsertItem ::
  "('a, 'v) gdata \<Rightarrow> 'a GBaseService \<Rightarrow> 'v \<Rightarrow> url_params \<Rightarrow> bool \<Rightarrow> 'v converter pyval
   \<Rightarrow> exn + 'v" where
  "InsertItem lib self new_item url_params escape_params converter =
     (case Post lib self new_item ''/base/feeds/items'' url_params escape_params converter of
        Inl e \<Rightarrow> Inl e
      | Inr response \<Rightarrow>
          (if \<not> truthy converter \<and> isinstance_Entry lib response
           then reparse lib response
           else Inr response))"

text \<open>
  \<^verbatim>\<open>str.lstrip(chars)\<close>: the string without its leading characters that occur
  in \<^verbatim>\<open>chars\<close>; the argument is a set of characters, not a prefix.
\<close>

definition lstrip :: "string \<Rightarrow> string \<Rightarrow> string" where
  "lstrip s chars = dropWhile (\<lambda>c. c \<in> set chars) s"

text \<open>
  \<^verbatim>\<open>
  def DeleteItem(self, item_id, url_params=None, escape_params=True):
    return self.Delete('/%s' % (item_id.lstrip('http://www.google.com/')),
                       url_params=url_params, escape_params=escape_params)
  \<close>
\<close>

definition DeleteItem ::
  "('a, 'v) gdata \<Rightarrow> 'a GBaseService \<Rightarrow> string \<Rightarrow> url_params \<Rightarrow> bool \<Rightarrow> exn + bool" where
  "DeleteItem lib self item_id url_params escape_params =
     Delete lib self (''/'' @ lstrip item_id ''http://www.google.com/'')
       url_params escape_params"

text \<open>
  \<^verbatim>\<open>
  def UpdateItem(self, item_id, updated_item, url_params=None, escape_params=True,
                 converter=None):
    response = self.Put(updated_item, item_id, url_params=url_params,
                        escape_params=escape_params, converter=converter)
    if not converter and isinstance(response, atom.Entry):
      return gdata.base.GBaseItemFromString(response.ToString())
    return response
  \<close>
\<close>

definition UpdateItem ::
  "('a, 'v) gdata \<Rightarrow> 'a GBaseService \<Rightarrow> string \<Rightarrow> 'v \<Rightarrow> url_params \<Rightarrow> bool
   \<Rightarrow> 'v converter pyval \<Rightarrow> exn + 'v" where
  "UpdateItem lib self item_id updated_item url_params escape_params converter =
     (case Put lib self updated_item item_id url_params escape_params converter of
        Inl e \<Rightarrow> Inl e
      | Inr response \<Rightarrow>
          (if \<not> truthy converter \<and> isinstance_Entry lib response
           then reparse lib response
           else Inr response))"

subsection \<open>The inherited requests, as the spec describes them\<close>

text \<open>
  A request as the transport sees it: the method, the data sent if any, the URI, and
  the URL parameters with their escape flag.
\<close>

datatype 'v request =
    GET string
  | POST 'v string url_params bool
  | PUT 'v string url_params bool

text \<open>
  Modelled from the spec: \<^verbatim>\<open>GDataService.Get\<close>, \<^verbatim>\<open>Post\<close> and
  \<^verbatim>\<open>Put\<close> are not under src/. The spec says that a converter is "a
  caller-supplied function mapping a raw response into a typed object" and that "all
  failures (network, auth, parse) are raised as exceptions by the underlying transport";
  the docstrings of the binding call the converter "a function which will be executed on
  the server's response". So an inherited request hands the failure of the transport on,
  and otherwise runs the converter, when one is given, on the response. What it makes of
  a response when no converter is given is left open (\<open>unconverted\<close>).
\<close>

definition executed :: "exn + string \<Rightarrow> 'v converter pyval \<Rightarrow> 'v converter \<Rightarrow> exn + 'v" where
  "executed response converter unconverted =
     (case response of
        Inl e \<Rightarrow> Inl e
      | Inr body \<Rightarrow> (case converter of PyNone \<Rightarrow> unconverted body | PyVal c \<Rightarrow> c body))"

definition spec_Get ::
  "('a GBaseService \<Rightarrow> 'v request \<Rightarrow> exn + string) \<Rightarrow> 'v converter \<Rightarrow>
   'a GBaseService \<Rightarrow> string \<Rightarrow> 'v converter pyval \<Rightarrow> exn + 'v" where
  "spec_Get respond unconverted self uri converter =
     executed (respond self (GET uri)) converter unconverted"

definition spec_Post ::
  "('a GBaseService \<Rightarrow> 'v request \<Rightarrow> exn + string) \<Rightarrow> 'v converter \<Rightarrow>
   'a GBaseService \<Rightarrow> 'v \<Rightarrow> string \<Rightarrow> url_params \<Rightarrow> bool \<Rightarrow> 'v converter pyval \<Rightarrow> exn + 'v" where
  "spec_Post respond unconverted self data uri url_params escape_params converter =
     executed (respond self (POST data uri url_params escape_params)) converter unconverted"

definition spec_Put ::
  "('a GBaseService \<Rightarrow> 'v request \<Rightarrow> exn + string) \<Rightarrow> 'v converter \<Rightarrow>
   'a GBaseService \<Rightarrow> 'v \<Rightarrow> string \<Rightarrow> url_params \<Rightarrow> bool \<Rightarrow> 'v converter pyval \<Rightarrow> exn + 'v" where
  "spec_Put respond unconverted self data uri url_params escape_params converter =
     executed (respond self (PUT data uri url_params escape_params)) converter unconverted"

subsection \<open>A concrete library for evaluating the model\<close>

text \<open>
  A small universe of Python objects: a plain string, a generic Atom entry, a Google
  Base item (a subclass of the Atom entry) and a feed, each carrying its XML text.
\<close>

datatype obj = Text string | Entry string | Item string | Feed string

fun xml :: "obj \<Rightarrow> string" where
  "xml (Text s) = s"
| "xml (Entry s) = s"
| "xml (Item s) = s"
| "xml (Feed s) = s"

fun sent :: "obj request \<Rightarrow> string" where
  "sent (GET uri) = uri"
| "sent (POST d uri p e) = xml d"
| "sent (PUT d uri p e) = xml d"

text \<open>
  A server that is down for \<^verbatim>\<open>/down\<close> and otherwise echoes what it was sent;
  a default reading of a response as a feed or a generic entry; a serialiser and an item
  parser that each fail on one input.
\<close>

definition demo_respond :: "'a GBaseService \<Rightarrow> obj request \<Rightarrow> exn + string" where
  "demo_respond self req =
     (if sent req = ''/down'' then Inl (Raised ''socket.error'') else Inr (sent req))"

definition demo_unconverted :: "obj converter" where
  "demo_unconverted body = Inr (if body = ''/feed'' then Feed body else Entry body)"

definition demo_ToString :: "obj \<Rightarrow> exn + string" where
  "demo_ToString v =
     (if xml v = ''/unprintable'' then Inl (Raised ''UnicodeEncodeError'') else Inr (xml v))"

definition demo_ItemFromString :: "obj converter" where
  "demo_ItemFromString s =
     (if s = ''/malformed'' then Inl (Raised ''ExpatError'') else Inr (Item s))"

fun demo_is_Entry :: "obj \<Rightarrow> bool" where
  "demo_is_Entry (Entry s) = True"
| "demo_is_Entry (Item s) = True"
| "demo_is_Entry (Text s) = False"
| "demo_is_Entry (Feed s) = False"

definition demo_Delete :: "'a GBaseService \<Rightarrow> string \<Rightarrow> url_params \<Rightarrow> bool \<Rightarrow> exn + bool" where
  "demo_Delete self uri url_params escape_params =
     (if uri = ''/down'' then Inl (Raised ''socket.error'') else Inr True)"

definition demo :: "('a, obj) gdata" where
  "demo =
     \<lparr>Get = spec_Get demo_respond demo_unconverted,
      Post = spec_Post demo_respond demo_unconverted,
      Put = spec_Put demo_respond demo_unconverted,
      Delete = demo_Delete,
      isinstance_Entry = demo_is_Entry,
      ToString = demo_ToString,
      GBaseItemFromString = demo_ItemFromString,
      GBaseSnippetFromString = (\<lambda>s. Inr (Entry s)),
      GBaseSnippetFeedFromString = (\<lambda>s. Inr (Feed s)),
      GBaseItemFeedFromString = (\<lambda>s. Inr (Feed s)),
      GBaseAttributesFeedFromString = (\<lambda>s. Inr (Feed s)),
      GBaseItemTypesFeedFromString = (\<lambda>s. Inr (Feed s)),
      GBaseLocalesFeedFromString = (\<lambda>s. Inr (Feed s)),
      GBaseAttributeEntryFromString = (\<lambda>s. Inr (Entry s)),
      GBaseItemTypeEntryFromString = (\<lambda>s. Inr (Entry s)),
      GDataEntryFromString = (\<lambda>s. Inr (Entry s))\<rparr>"

subsection \<open>The operations with the state of the transport\<close>

text \<open>
  A request acts on the world outside the program: the connection, the server, whatever
  the transport counts or records. A function of the arguments alone cannot tell an
  operation that sends its request once from one that sends it again after a failure, so
  the inherited methods are given a second time with the state \<open>'w\<close> of the
  transport: each takes the state before the request and returns its outcome with the
  state after it. The operations thread that state; they are the same source lines as
  above, read with their effect.
\<close>

record ('a, 'v, 'w) requests =
  Get_io :: "'a GBaseService \<Rightarrow> string \<Rightarrow> 'v converter pyval \<Rightarrow> 'w \<Rightarrow> (exn + 'v) \<times> 'w"
  Post_io :: "'a GBaseService \<Rightarrow> 'v \<Rightarrow> string \<Rightarrow> url_params \<Rightarrow> bool \<Rightarrow> 'v converter pyval
              \<Rightarrow> 'w \<Rightarrow> (exn + 'v) \<times> 'w"
  Put_io :: "'a GBaseService \<Rightarrow> 'v \<Rightarrow> string \<Rightarrow> url_params \<Rightarrow> bool \<Rightarrow> 'v converter pyval
              \<Rightarrow> 'w \<Rightarrow> (exn + 'v) \<times> 'w"
  Delete_io :: "'a GBaseService \<Rightarrow> string \<Rightarrow> url_params \<Rightarrow> bool \<Rightarrow> 'w \<Rightarrow> (exn + bool) \<times> 'w"

text \<open>
  \<^verbatim>\<open>Query\<close> (lines 103 to 108): one \<^verbatim>\<open>self.Get\<close>, then the choice between
  the result, its re-parse and the result again, none of which sends a request.
\<close>

definition Query_io ::
  "('a, 'v, 'w) requests \<Rightarrow> ('a, 'v) gdata \<Rightarrow> 'a GBaseService \<Rightarrow> string \<Rightarrow>
   'v converter pyval \<Rightarrow> 'w \<Rightarrow> (exn + 'v) \<times> 'w" where
  "Query_io io lib self uri converter w =
     (case Get_io io self uri converter w of
        (Inl e, w') \<Rightarrow> (Inl e, w')
      | (Inr result, w') \<Rightarrow>
          (if truthy converter then (Inr result, w')
           else if isinstance_Entry lib result then (reparse lib result, w')
           else (Inr result, w')))"











text \<open>\<^verbatim>\<open>InsertItem\<close> (lines 161 to 166): one \<^verbatim>\<open>self.Post\<close>.\<close>

definition InsertItem_io ::
  "('a, 'v, 'w) requests \<Rightarrow> ('a, 'v) gdata \<Rightarrow> 'a GBaseService \<Rightarrow> 'v \<Rightarrow> url_params \<Rightarrow> bool
   \<Rightarrow> 'v converter pyval \<Rightarrow> 'w \<Rightarrow> (exn + 'v) \<times> 'w" where
  "InsertItem_io io lib self new_item url_params escape_params converter w =
     (case Post_io io self new_item ''/base/feeds/items'' url_params escape_params converter w
      of
        (Inl e, w') \<Rightarrow> (Inl e, w')
      | (Inr response, w') \<Rightarrow>
          (if \<not> truthy converter \<and> isinstance_Entry lib response
           then (reparse lib response, w')
           else (Inr response, w')))"

text \<open>\<^verbatim>\<open>DeleteItem\<close> (lines 183 and 184): one \<^verbatim>\<open>self.Delete\<close>.\<close>

definition DeleteItem_io ::
  "('a, 'v, 'w) requests \<Rightarrow> 'a GBaseService \<Rightarrow> string \<Rightarrow> url_params \<Rightarrow> bool \<Rightarrow> 'w
   \<Rightarrow> (exn + bool) \<times> 'w" where
  "DeleteItem_io io self item_id url_params escape_params w =
     Delete_io io self (''/'' @ lstrip item_id ''http://www.google.com/'')
       url_params escape_params w"

text \<open>\<^verbatim>\<open>UpdateItem\<close> (lines 210 to 215): one \<^verbatim>\<open>self.Put\<close>.\<close>

definition UpdateItem_io ::
  "('a, 'v, 'w) requests \<Rightarrow> ('a, 'v) gdata \<Rightarrow> 'a GBaseService \<Rightarrow> string \<Rightarrow> 'v \<Rightarrow> url_params
   \<Rightarrow> bool \<Rightarrow> 'v converter pyval \<Rightarrow> 'w \<Rightarrow> (exn + 'v) \<times> 'w" where
  "UpdateItem_io io lib self item_id updated_item url_params escape_params converter w =
     (case Put_io io self updated_item item_id url_params escape_params converter w of
        (Inl e, w') \<Rightarrow> (Inl e, w')
      | (Inr response, w') \<Rightarrow>
          (if \<not> truthy converter \<and> isinstance_Entry lib response
           then (reparse lib response, w')
           else (Inr response, w')))"

text \<open>
  A transport whose state is the list of the requests sent so far: it answers as the
  library \<open>lib\<close> does and appends a line for the request.
\<close>

definition logging :: "('a, 'v) gdata \<Rightarrow> ('a, 'v, string list) requests" where
  "logging lib =
     \<lparr>Get_io = (\<lambda>self uri converter w. (Get lib self uri converter, w @ [''GET '' @ uri])),
      Post_io = (\<lambda>self data uri url_params escape_params converter w.
                   (Post lib self data uri url_params escape_params converter,
                    w @ [''POST '' @ uri])),
      Put_io = (\<lambda>self data uri url_params escape_params converter w.
                  (Put lib self data uri url_params escape_params converter,
                   w @ [''PUT '' @ uri])),
      Delete_io = (\<lambda>self uri url_params escape_params w.
                     (Delete lib self uri url_params escape_params, w @ [''DELETE '' @ uri]))\<rparr>"

text \<open>
  Not the code, for contrast only: a \<^verbatim>\<open>Query\<close> that would catch a failure of its
  request and try once more.
\<close>

definition Query_retrying ::
  "('a, 'v, 'w) requests \<Rightarrow> ('a, 'v) gdata \<Rightarrow> 'a GBaseService \<Rightarrow> string \<Rightarrow>
   'v converter pyval \<Rightarrow> 'w \<Rightarrow> (exn + 'v) \<times> 'w" where
  "Query_retrying io lib self uri converter w =
     (case Query_io io lib self uri converter w of
        (Inl e, w') \<Rightarrow> Query_io io lib self uri converter w'
      | (Inr v, w') \<Rightarrow> (Inr v, w'))"

section \<open>Properties\<close>

lemma set_api_key_headers:
  "additional_headers (set_api_key self v) =
     HDict ((case additional_headers self of HNone \<Rightarrow> Map.empty | HDict m \<Rightarrow> m)
            (''X-Google-Key'' \<mapsto> v))"
  by (cases "additional_headers self")
     (simp_all add: set_api_key_def GBaseService__SetAPIKey_def GBaseService_SetAPIKey_def)

subsection \<open>The API key accessor\<close>

text \<open>
  Once \<^verbatim>\<open>additional_headers\<close> is a dict, reading the key is a lookup that
  turns a missing entry into \<^verbatim>\<open>None\<close>.
\<close>

lemma get_api_key_dict:
  "additional_headers self = HDict m \<Longrightarrow>
   get_api_key self = (case m ''X-Google-Key'' of None \<Rightarrow> Inr PyNone | Some v \<Rightarrow> Inr v)"
  by (auto simp: get_api_key_def GBaseService__GetAPIKey_def GBaseService_GetAPIKey_def
           split: option.splits)

text \<open>
  Claim C4. Setting \<^verbatim>\<open>api_key\<close> to any value \<open>v\<close> (\<^verbatim>\<open>None\<close>
  included) and reading it back returns \<open>v\<close>, whatever \<^verbatim>\<open>additional_headers\<close>
  was before; and when \<^verbatim>\<open>additional_headers\<close> is a dict without the key
  \<^verbatim>\<open>X-Google-Key\<close>, reading \<^verbatim>\<open>api_key\<close> returns \<^verbatim>\<open>None\<close>.
\<close>

theorem api_key_roundtrip:
  "get_api_key (set_api_key self v) = Inr v \<and>
   (\<exists>m'. additional_headers (set_api_key self v) = HDict m' \<and>
         m' ''X-Google-Key'' = Some v) \<and>
   (additional_headers self = HDict m \<and> ''X-Google-Key'' \<notin> dom m \<longrightarrow>
      get_api_key self = Inr PyNone)"
proof (intro conjI impI)
  show "get_api_key (set_api_key self v) = Inr v"
    using get_api_key_dict [OF set_api_key_headers, of self v] by simp
next
  show "\<exists>m'. additional_headers (set_api_key self v) = HDict m' \<and>
          m' ''X-Google-Key'' = Some v"
    by (simp add: set_api_key_headers)
next
  assume "additional_headers self = HDict m \<and> ''X-Google-Key'' \<notin> dom m"
  then show "get_api_key self = Inr PyNone"
    using get_api_key_dict [of self m] by (auto simp: domIff)
qed

theorem api_key_roundtrip_witness:
  "get_api_key (set_api_key (GBaseService_default :: string GBaseService) (PyVal ''k3y''))
     = Inr (PyVal ''k3y'') \<and>
   get_api_key ((GBaseService_default :: string GBaseService)
                  \<lparr>additional_headers := HDict [''User-Agent'' \<mapsto> PyVal ''demo'']\<rparr>)
     = Inr PyNone"
  using api_key_roundtrip [of "GBaseService_default :: string GBaseService" "PyVal ''k3y''"]
    api_key_roundtrip
      [of "(GBaseService_default :: string GBaseService)
             \<lparr>additional_headers := HDict [''User-Agent'' \<mapsto> PyVal ''demo'']\<rparr>"
          _ "[''User-Agent'' \<mapsto> PyVal ''demo'']"]
  by simp

text \<open>
  Claim C9. After the constructor, for every \<^verbatim>\<open>api_key\<close> argument and every
  \<^verbatim>\<open>additional_headers\<close> argument, \<^verbatim>\<open>additional_headers\<close> is a dict
  that maps \<^verbatim>\<open>X-Google-Key\<close> to the argument. With the default
  \<^verbatim>\<open>api_key=None\<close> the key is present and mapped to \<^verbatim>\<open>None\<close>, and
  reading \<^verbatim>\<open>api_key\<close> returns \<^verbatim>\<open>None\<close> although the key is not absent.
\<close>

theorem init_carries_header:
  "(\<exists>m. additional_headers (GBaseService_init em pw src srv k h) = HDict m \<and>
        m ''X-Google-Key'' = Some k) \<and>
   (\<exists>m. additional_headers (GBaseService_init em pw src srv PyNone h) = HDict m \<and>
        ''X-Google-Key'' \<in> dom m \<and> m ''X-Google-Key'' = Some PyNone) \<and>
   get_api_key (GBaseService_init em pw src srv PyNone h) = Inr PyNone"
  using get_api_key_dict [OF set_api_key_headers]
  by (simp add: GBaseService_init_def set_api_key_headers)

subsection \<open>The bq accessor\<close>

text \<open>
  Claim C10. Reading \<^verbatim>\<open>bq\<close> on a query object that has no entry
  \<^verbatim>\<open>bq\<close> raises \<^verbatim>\<open>KeyError\<close>; reading \<^verbatim>\<open>api_key\<close> on a service
  whose header dict has no entry \<^verbatim>\<open>X-Google-Key\<close> returns \<^verbatim>\<open>None\<close>.
\<close>

theorem bq_unset_raises:
  "(''bq'' \<notin> dom q \<longrightarrow> get_bq q = Inl KeyError) \<and>
   (additional_headers self = HDict m \<and> ''X-Google-Key'' \<notin> dom m \<longrightarrow>
      get_api_key self = Inr PyNone)"
  using get_api_key_dict [of self m]
  by (auto simp: get_bq_def BaseQuery_GetBaseQuery_def getitem_def domIff)

theorem bq_unset_raises_witness:
  "get_bq ([''q'' \<mapsto> ''camera''] :: string BaseQuery) = Inl KeyError \<and>
   get_api_key ((GBaseService_default :: string GBaseService)
                  \<lparr>additional_headers := HDict Map.empty\<rparr>) = Inr PyNone"
  using bq_unset_raises
      [of "[''q'' \<mapsto> ''camera'']"
          "(GBaseService_default :: string GBaseService)\<lparr>additional_headers := HDict Map.empty\<rparr>"
          "Map.empty"]
  by simp

text \<open>
  Claim C8. Setting \<^verbatim>\<open>bq\<close> to \<open>v\<close> stores \<open>v\<close> under the key
  \<^verbatim>\<open>bq\<close>, and reading \<^verbatim>\<open>bq\<close> then returns \<open>v\<close>; no other entry
  changes. On every other key the object is a plain container: an item that is set is
  the item that is read, setting one key leaves the others alone, and setting another
  key does not change what \<^verbatim>\<open>bq\<close> reads.
\<close>

theorem bq_roundtrip:
  "set_bq q v ''bq'' = Some v \<and>
   get_bq (set_bq q v) = Inr v \<and>
   (k \<noteq> ''bq'' \<longrightarrow> set_bq q v k = q k \<and> getitem (set_bq q v) k = getitem q k) \<and>
   getitem (setitem q k w) k = Inr w \<and>
   (k' \<noteq> k \<longrightarrow> getitem (setitem q k w) k' = getitem q k') \<and>
   (k \<noteq> ''bq'' \<longrightarrow> get_bq (setitem q k w) = get_bq q)"
  by (simp add: set_bq_def get_bq_def BaseQuery_SetBaseQuery_def BaseQuery_GetBaseQuery_def
        getitem_def setitem_def)

theorem bq_roundtrip_witness:
  "set_bq [''max-results'' \<mapsto> ''10''] ''digital camera'' ''bq'' = Some ''digital camera'' \<and>
   get_bq (set_bq [''max-results'' \<mapsto> ''10''] ''digital camera'') = Inr ''digital camera'' \<and>
   set_bq [''max-results'' \<mapsto> ''10''] ''digital camera'' ''max-results'' = Some ''10'' \<and>
   getitem (set_bq [''max-results'' \<mapsto> ''10''] ''digital camera'') ''max-results'' = Inr ''10'' \<and>
   getitem (setitem [''max-results'' \<mapsto> ''10''] ''max-results'' ''25'') ''bq'' = Inl KeyError \<and>
   get_bq (setitem [''bq'' \<mapsto> ''camera''] ''max-results'' ''25'') = Inr ''camera''"
  using bq_roundtrip [of "[''max-results'' \<mapsto> ''10'']" "''digital camera''" "''max-results''"
      "''25''" "''bq''"]
    bq_roundtrip [of "[''bq'' \<mapsto> ''camera'']" "''camera''" "''max-results''" "''25''" "''bq''"]
  by (simp add: getitem_def get_bq_def BaseQuery_GetBaseQuery_def)

subsection \<open>The concrete library, field by field\<close>

lemma demo_fields:
  "Get demo = spec_Get demo_respond demo_unconverted"
  "Post demo = spec_Post demo_respond demo_unconverted"
  "Put demo = spec_Put demo_respond demo_unconverted"
  "Delete demo = demo_Delete"
  "isinstance_Entry demo = demo_is_Entry"
  "ToString demo = demo_ToString"
  "GBaseItemFromString demo = demo_ItemFromString"
  "GBaseSnippetFromString demo = (\<lambda>s. Inr (Entry s))"
  "GBaseSnippetFeedFromString demo = (\<lambda>s. Inr (Feed s))"
  "GBaseItemFeedFromString demo = (\<lambda>s. Inr (Feed s))"
  "GBaseAttributesFeedFromString demo = (\<lambda>s. Inr (Feed s))"
  "GBaseItemTypesFeedFromString demo = (\<lambda>s. Inr (Feed s))"
  "GBaseLocalesFeedFromString demo = (\<lambda>s. Inr (Feed s))"
  "GBaseAttributeEntryFromString demo = (\<lambda>s. Inr (Entry s))"
  "GBaseItemTypeEntryFromString demo = (\<lambda>s. Inr (Entry s))"
  "GDataEntryFromString demo = (\<lambda>s. Inr (Entry s))"
  by (simp_all add: demo_def)

lemmas demo_defs =
  demo_fields spec_Get_def spec_Post_def spec_Put_def executed_def demo_respond_def
  demo_unconverted_def demo_ToString_def demo_ItemFromString_def demo_Delete_def

subsection \<open>Typed queries and the converter\<close>

text \<open>
  Claim C7. Each typed wrapper is the inherited \<^verbatim>\<open>Get\<close> on the same URI with
  its own fixed converter: the five feed queries with the matching feed parser, the five
  single-entry getters with the matching entry parser.
\<close>

theorem typed_wrappers:
  "QuerySnippetsFeed lib self uri = Get lib self uri (PyVal (GBaseSnippetFeedFromString lib)) \<and>
   QueryItemsFeed lib self uri = Get lib self uri (PyVal (GBaseItemFeedFromString lib)) \<and>
   QueryAttributesFeed lib self uri =
     Get lib self uri (PyVal (GBaseAttributesFeedFromString lib)) \<and>
   QueryItemTypesFeed lib self uri =
     Get lib self uri (PyVal (GBaseItemTypesFeedFromString lib)) \<and>
   QueryLocalesFeed lib self uri = Get lib self uri (PyVal (GBaseLocalesFeedFromString lib)) \<and>
   GetItem lib self uri = Get lib self uri (PyVal (GBaseItemFromString lib)) \<and>
   GetSnippet lib self uri = Get lib self uri (PyVal (GBaseSnippetFromString lib)) \<and>
   GetAttribute lib self uri = Get lib self uri (PyVal (GBaseAttributeEntryFromString lib)) \<and>
   GetItemType lib self uri = Get lib self uri (PyVal (GBaseItemTypeEntryFromString lib)) \<and>
   GetLocale lib self uri = Get lib self uri (PyVal (GDataEntryFromString lib))"
  by (simp add: QuerySnippetsFeed_def QueryItemsFeed_def QueryAttributesFeed_def
        QueryItemTypesFeed_def QueryLocalesFeed_def GetItem_def GetSnippet_def
        GetAttribute_def GetItemType_def GetLocale_def)

text \<open>
  Claim C2. With a converter \<open>c\<close>, \<^verbatim>\<open>Query\<close>, \<^verbatim>\<open>InsertItem\<close> and
  \<^verbatim>\<open>UpdateItem\<close> return what the inherited request returned, untouched; and when
  the inherited request is the one the spec describes, that is \<open>c\<close> run on the
  server's response (or the failure of the transport).
\<close>

theorem converter_output_returned:
  "Query lib self uri (PyVal c) = Get lib self uri (PyVal c) \<and>
   InsertItem lib self new_item url_params escape_params (PyVal c) =
     Post lib self new_item ''/base/feeds/items'' url_params escape_params (PyVal c) \<and>
   UpdateItem lib self item_id updated_item url_params escape_params (PyVal c) =
     Put lib self updated_item item_id url_params escape_params (PyVal c) \<and>
   (Get lib = spec_Get respond unconverted \<longrightarrow>
      Query lib self uri (PyVal c) =
        (case respond self (GET uri) of Inl e \<Rightarrow> Inl e | Inr body \<Rightarrow> c body)) \<and>
   (Post lib = spec_Post respond unconverted \<longrightarrow>
      InsertItem lib self new_item url_params escape_params (PyVal c) =
        (case respond self (POST new_item ''/base/feeds/items'' url_params escape_params) of
           Inl e \<Rightarrow> Inl e | Inr body \<Rightarrow> c body)) \<and>
   (Put lib = spec_Put respond unconverted \<longrightarrow>
      UpdateItem lib self item_id updated_item url_params escape_params (PyVal c) =
        (case respond self (PUT updated_item item_id url_params escape_params) of
           Inl e \<Rightarrow> Inl e | Inr body \<Rightarrow> c body))"
  by (simp add: Query_def InsertItem_def UpdateItem_def spec_Get_def spec_Post_def
        spec_Put_def executed_def split: sum.splits)

theorem converter_output_returned_witness:
  "Query demo (GBaseService_default :: string GBaseService) ''/base/feeds/snippets''
     (PyVal (\<lambda>body. Inr (Text (body @ ''!'')))) = Inr (Text ''/base/feeds/snippets!'') \<and>
   InsertItem demo (GBaseService_default :: string GBaseService) (Item ''<entry/>'') PyNone True
     (PyVal (\<lambda>body. Inr (Text (body @ ''!'')))) = Inr (Text ''<entry/>!'') \<and>
   UpdateItem demo (GBaseService_default :: string GBaseService)
     ''http://www.google.com/base/feeds/items/1'' (Item ''<entry/>'') PyNone True
     (PyVal (\<lambda>body. Inr (Text (body @ ''!'')))) = Inr (Text ''<entry/>!'')"
proof -
  have g: "Get (demo :: (string, obj) gdata) = spec_Get demo_respond demo_unconverted"
    and p: "Post (demo :: (string, obj) gdata) = spec_Post demo_respond demo_unconverted"
    and u: "Put (demo :: (string, obj) gdata) = spec_Put demo_respond demo_unconverted"
    by (simp_all add: demo_def)
  show ?thesis
    using g p u
      converter_output_returned
        [where lib = "demo :: (string, obj) gdata" and respond = demo_respond
           and unconverted = demo_unconverted and self = GBaseService_default
           and uri = "''/base/feeds/snippets''" and new_item = "Item ''<entry/>''"
           and updated_item = "Item ''<entry/>''"
           and item_id = "''http://www.google.com/base/feeds/items/1''"
           and url_params = PyNone and escape_params = True
           and c = "\<lambda>body. Inr (Text (body @ ''!''))"]
    by (simp add: demo_respond_def spec_Get_def spec_Post_def spec_Put_def executed_def)
qed

text \<open>
  Claim C3. When \<^verbatim>\<open>Get\<close> without a converter returns \<open>result\<close>,
  \<^verbatim>\<open>Query\<close> without a converter returns
  \<^verbatim>\<open>GBaseItemFromString(result.ToString())\<close> if \<open>result\<close> is an instance of
  \<^verbatim>\<open>atom.Entry\<close>, and \<open>result\<close> itself otherwise.
\<close>

theorem Query_without_converter:
  assumes "Get lib self uri PyNone = Inr result"
  shows "Query lib self uri PyNone =
           (if isinstance_Entry lib result
            then (case ToString lib result of
                    Inl e \<Rightarrow> Inl e
                  | Inr s \<Rightarrow> GBaseItemFromString lib s)
            else Inr result)"
  using assms by (simp add: Query_def reparse_def)

theorem Query_without_converter_witness:
  "Get demo (GBaseService_default :: string GBaseService) ''/base/feeds/items/1'' PyNone
     = Inr (Entry ''/base/feeds/items/1'') \<and>
   Query demo (GBaseService_default :: string GBaseService) ''/base/feeds/items/1'' PyNone
     = Inr (Item ''/base/feeds/items/1'') \<and>
   Get demo (GBaseService_default :: string GBaseService) ''/feed'' PyNone
     = Inr (Feed ''/feed'') \<and>
   Query demo (GBaseService_default :: string GBaseService) ''/feed'' PyNone
     = Inr (Feed ''/feed'')"
proof -
  let ?s = "GBaseService_default :: string GBaseService"
  have entry: "Get demo ?s ''/base/feeds/items/1'' PyNone = Inr (Entry ''/base/feeds/items/1'')"
    by (simp add: demo_defs)
  have feed: "Get demo ?s ''/feed'' PyNone = Inr (Feed ''/feed'')"
    by (simp add: demo_defs)
  show ?thesis
    using entry feed Query_without_converter [OF entry] Query_without_converter [OF feed]
    by (simp add: demo_defs)
qed

text \<open>
  Claim C5. \<^verbatim>\<open>InsertItem\<close> posts the new item to \<^verbatim>\<open>/base/feeds/items\<close>
  and \<^verbatim>\<open>UpdateItem\<close> puts the updated item to the given \<^verbatim>\<open>item_id\<close>, as
  it is. Both then shape the outcome as \<^verbatim>\<open>Query\<close> does: with a converter the
  response is returned as the inherited request produced it; without one a response that
  is an \<^verbatim>\<open>atom.Entry\<close> is serialised by \<^verbatim>\<open>ToString\<close> and parsed again by
  \<^verbatim>\<open>GBaseItemFromString\<close>, and any other response is returned unchanged.
\<close>

theorem same_policy:
  "InsertItem lib self new_item url_params escape_params converter =
     (case Post lib self new_item ''/base/feeds/items'' url_params escape_params converter of
        Inl e \<Rightarrow> Inl e
      | Inr response \<Rightarrow>
          (case converter of
             PyVal c \<Rightarrow> Inr response
           | PyNone \<Rightarrow>
               if isinstance_Entry lib response
               then (case ToString lib response of
                       Inl e \<Rightarrow> Inl e
                     | Inr s \<Rightarrow> GBaseItemFromString lib s)
               else Inr response)) \<and>
   UpdateItem lib self item_id updated_item url_params escape_params converter =
     (case Put lib self updated_item item_id url_params escape_params converter of
        Inl e \<Rightarrow> Inl e
      | Inr response \<Rightarrow>
          (case converter of
             PyVal c \<Rightarrow> Inr response
           | PyNone \<Rightarrow>
               if isinstance_Entry lib response
               then (case ToString lib response of
                       Inl e \<Rightarrow> Inl e
                     | Inr s \<Rightarrow> GBaseItemFromString lib s)
               else Inr response)) \<and>
   Query lib self uri converter =
     (case Get lib self uri converter of
        Inl e \<Rightarrow> Inl e
      | Inr result \<Rightarrow>
          (case converter of
             PyVal c \<Rightarrow> Inr result
           | PyNone \<Rightarrow>
               if isinstance_Entry lib result
               then (case ToString lib result of
                       Inl e \<Rightarrow> Inl e
                     | Inr s \<Rightarrow> GBaseItemFromString lib s)
               else Inr result))"
  by (cases converter)
     (simp_all add: InsertItem_def UpdateItem_def Query_def reparse_def split: sum.splits)

subsection \<open>Deleting an item\<close>

lemma lstrip_Cons:
  "lstrip (c # s) chars = (if c \<in> set chars then lstrip s chars else c # s)"
  by (simp add: lstrip_def)

lemma lstrip_Nil: "lstrip [] chars = []"
  by (simp add: lstrip_def)

text \<open>
  For an ID of the documented form the characters stripped are exactly the host prefix,
  since \<^verbatim>\<open>b\<close> does not occur in \<^verbatim>\<open>http://www.google.com/\<close>; so it is
  for every ID whose remainder starts with a character outside the prefix.
\<close>

lemma DeleteItem_documented_id:
  "DeleteItem lib self (''http://www.google.com/base/feeds/items/'' @ n) url_params
     escape_params =
   Delete lib self (''/base/feeds/items/'' @ n) url_params escape_params"
  by (simp add: DeleteItem_def lstrip_Cons)

lemma DeleteItem_prefix_stripped:
  assumes "c \<notin> set ''http://www.google.com/''"
  shows "DeleteItem lib self (''http://www.google.com/'' @ c # rest) url_params escape_params =
         Delete lib self (''/'' @ c # rest) url_params escape_params"
  using assms by (simp add: DeleteItem_def lstrip_Cons)

text \<open>
  Claim C1. \<^verbatim>\<open>DeleteItem\<close> does not remove the prefix
  \<^verbatim>\<open>http://www.google.com/\<close> and only it: \<^verbatim>\<open>lstrip\<close> removes every
  leading character that occurs in the prefix. For the ID
  \<^verbatim>\<open>http://www.google.com/people/feeds/items/1\<close> it also removes
  \<^verbatim>\<open>people/\<close>, and the delete is issued at \<^verbatim>\<open>/feeds/items/1\<close>, not at
  \<^verbatim>\<open>/people/feeds/items/1\<close>.
\<close>

theorem DeleteItem_strips_characters:
  "lstrip ''http://www.google.com/people/feeds/items/1'' ''http://www.google.com/''
     = ''feeds/items/1'' \<and>
   DeleteItem lib self ''http://www.google.com/people/feeds/items/1'' url_params
     escape_params =
   Delete lib self ''/feeds/items/1'' url_params escape_params"
  by (simp add: DeleteItem_def lstrip_Cons lstrip_Nil)

subsection \<open>Exceptions\<close>






text \<open>
  Over the transport that logs, every operation returns what the operation without state
  returns and adds exactly one line to the log: the request the source names.
\<close>

lemma logging_fields:
  "Get_io (logging lib) =
     (\<lambda>self uri converter w. (Get lib self uri converter, w @ [''GET '' @ uri]))"
  "Post_io (logging lib) =
     (\<lambda>self data uri url_params escape_params converter w.
        (Post lib self data uri url_params escape_params converter, w @ [''POST '' @ uri]))"
  "Put_io (logging lib) =
     (\<lambda>self data uri url_params escape_params converter w.
        (Put lib self data uri url_params escape_params converter, w @ [''PUT '' @ uri]))"
  "Delete_io (logging lib) =
     (\<lambda>self uri url_params escape_params w.
        (Delete lib self uri url_params escape_params, w @ [''DELETE '' @ uri]))"
  by (simp_all add: logging_def)

lemma one_request_logged:
  "Query_io (logging lib) lib self uri converter w =
     (Query lib self uri converter, w @ [''GET '' @ uri])"
  "InsertItem_io (logging lib) lib self new_item url_params escape_params converter w =
     (InsertItem lib self new_item url_params escape_params converter,
      w @ [''POST /base/feeds/items''])"
  "UpdateItem_io (logging lib) lib self item_id updated_item url_params escape_params
     converter w =
     (UpdateItem lib self item_id updated_item url_params escape_params converter,
      w @ [''PUT '' @ item_id])"
  "DeleteItem_io (logging lib) self item_id url_params escape_params w =
     (DeleteItem lib self item_id url_params escape_params,
      w @ [''DELETE /'' @ lstrip item_id ''http://www.google.com/''])"
  by (simp_all add: Query_io_def Query_def InsertItem_io_def InsertItem_def UpdateItem_io_def
        UpdateItem_def DeleteItem_io_def DeleteItem_def logging_fields split: sum.splits)

text \<open>
  The state tells the code from a variant that tries again: after a failed request the
  retrying variant has sent two.
\<close>

lemma retrying_is_visible:
  "Query_retrying (logging demo) demo (GBaseService_default :: string GBaseService) ''/down''
     PyNone [] = (Inl (Raised ''socket.error''), [''GET /down'', ''GET /down''])"
  "Query_retrying (logging demo) demo (GBaseService_default :: string GBaseService) ''/down''
     PyNone [] \<noteq>
   Query_io (logging demo) demo (GBaseService_default :: string GBaseService) ''/down''
     PyNone []"
  by (simp_all add: Query_retrying_def one_request_logged Query_def demo_defs)



end
